theory Spec2Isabelle
  imports Main
begin

section \<open>Python values shared by the two modules\<close>

text \<open>
  Python strings are sequences of code points. Every code point used by the modelled
  literals lies below 256, so a \<^typ>\<open>string\<close> holds one \<^typ>\<open>char\<close> per code point;
  the accented letters are written by their code point (\<open>CHR 0xE3\<close> is a-tilde).
\<close>

datatype error =
    KeyError string
  | HTTPException nat string
  | Raised string

text \<open>
  \<open>KeyError k\<close>: a dict subscript on the missing key \<open>k\<close>.
  \<open>HTTPException code detail\<close>: raised by the API module.
  \<open>Raised name\<close>: an exception coming out of a call into an external library
  (agentle, playwright), identified by its name.
\<close>

type_synonym dict = "string \<rightharpoonup> string"

definition getitem :: "dict \<Rightarrow> string \<Rightarrow> error + string" where
  "getitem d k = (case d k of None \<Rightarrow> Inl (KeyError k) | Some v \<Rightarrow> Inr v)"

definition dict_get :: "dict \<Rightarrow> string \<Rightarrow> string \<Rightarrow> string" where
  "dict_get d k dflt = (case d k of None \<Rightarrow> dflt | Some v \<Rightarrow> v)"

definition nl :: string where
  "nl = [CHR 0x0A]"

section \<open>agents/ale.py: the chat operation\<close>

datatype part = TextPart (text': string)

datatype message =
    UserMessage (parts: "part list")
  | AssistantMessage (parts: "part list")

text \<open>
  Python lists are mutable objects reached through references, and \<open>run_ale_chat\<close>
  receives \<open>chat_history\<close> by reference. The store holds the list objects; a reference
  is an index into it. \<open>extend\<close> and \<open>append\<close> mutate the list they are called on.
\<close>

type_synonym ref = nat
type_synonym heap = "message list list"

definition new_list :: "message list \<Rightarrow> heap \<Rightarrow> ref \<times> heap" where
  "new_list xs h = (length h, h @ [xs])"

definition list_extend :: "ref \<Rightarrow> ref \<Rightarrow> heap \<Rightarrow> heap" where
  "list_extend dst src h = h[dst := h ! dst @ h ! src]"

definition list_append :: "ref \<Rightarrow> message \<Rightarrow> heap \<Rightarrow> heap" where
  "list_append dst x h = h[dst := h ! dst @ [x]]"

text \<open>
  The f-string of lines 204-210. The three subscripts are evaluated in order and the first
  missing key raises; \<open>status_regulatorio\<close> has a default.
\<close>

definition context_message :: "dict \<Rightarrow> error + string" where
  "context_message project_context =
     (case getitem project_context ''name'' of
        Inl e \<Rightarrow> Inl e
      | Inr name \<Rightarrow>
     (case getitem project_context ''category'' of
        Inl e \<Rightarrow> Inl e
      | Inr category \<Rightarrow>
     (case getitem project_context ''target_crop'' of
        Inl e \<Rightarrow> Inl e
      | Inr target_crop \<Rightarrow>
          Inr (nl @ ''    [CONTEXTO DO PROJETO]'' @ nl
             @ ''    Nome: '' @ name @ nl
             @ ''    Categoria: '' @ category @ nl
             @ ''    Cultura: '' @ target_crop @ nl
             @ ''    Status Regulat'' @ [CHR 0xF3] @ ''rio Atual: ''
             @ dict_get project_context ''status_regulatorio''
                 (''Em an'' @ [CHR 0xE1] @ ''lise'') @ nl
             @ ''    ''))))"

text \<open>
  Lines 204-220 of \<open>run_ale_chat\<close>: the list \<open>messages\<close> is a new object holding the
  context turn; it is extended with the history and the new user turn is appended.
  The result is the reference to \<open>messages\<close> and the store after the three statements.
\<close>

definition build_messages :: "string \<Rightarrow> dict \<Rightarrow> ref \<Rightarrow> heap \<Rightarrow> error + ref \<times> heap" where
  "build_messages user_message project_context chat_history h =
     (case context_message project_context of
        Inl e \<Rightarrow> Inl e
      | Inr ctx \<Rightarrow>
          (case new_list [UserMessage [TextPart ctx]] h of
             (messages, h1) \<Rightarrow>
               Inr (messages,
                    list_append messages (UserMessage [TextPart user_message])
                      (list_extend messages chat_history h1))))"

text \<open>
  The agent built by \<open>create_ale_agent\<close> is external: \<open>run_async\<close> is a parameter that
  maps the messages it is sent to what the call does. \<open>output.content\<close> may be \<open>None\<close>
  or an empty list, both falsy.
\<close>

datatype run_result =
    Returns (content: "part list option")
  | Raises error

definition fallback_message :: string where
  "fallback_message = ''Desculpe, n'' @ [CHR 0xE3] @ ''o consegui gerar resposta.''"

definition response_text :: "part list option \<Rightarrow> string" where
  "response_text c = (case c of Some (p # ps) \<Rightarrow> text' p | _ \<Rightarrow> fallback_message)"

definition run_ale_chat ::
  "(message list \<Rightarrow> run_result) \<Rightarrow> string \<Rightarrow> dict \<Rightarrow> ref \<Rightarrow> heap \<Rightarrow> (error + string) \<times> heap" where
  "run_ale_chat run_async user_message project_context chat_history h =
     (case build_messages user_message project_context chat_history h of
        Inl e \<Rightarrow> (Inl e, h)
      | Inr (messages, h') \<Rightarrow>
          (case run_async (h' ! messages) of
             Raises e \<Rightarrow> (Inl e, h')
           | Returns c \<Rightarrow> (Inr (response_text c), h')))"

text \<open>The messages handed to \<open>run_async\<close> by a call, when it gets that far.\<close>

definition messages_sent :: "string \<Rightarrow> dict \<Rightarrow> ref \<Rightarrow> heap \<Rightarrow> message list option" where
  "messages_sent user_message project_context chat_history h =
     (case build_messages user_message project_context chat_history h of
        Inl e \<Rightarrow> None
      | Inr (messages, h') \<Rightarrow> Some (h' ! messages))"

section \<open>agents/ale.py: the web-extraction tool\<close>

record ExtractionPreferences =
  only_main_content :: bool
  wait_for_ms :: int
  block_ads :: bool
  remove_base_64_images :: bool
  timeout_ms :: int

record MapaExtractedContent =
  informacao_relevante :: string
  numero_normativa :: "string option"
  data_publicacao :: "string option"

text \<open>
  What \<open>extract_async\<close> does: it raises, or returns a result whose \<open>output_parsed\<close>
  is the parsed content or \<open>None\<close>.
\<close>

datatype extract_result =
    Extracted (output_parsed: "MapaExtractedContent option")
  | ExtractRaises error

text \<open>
  What the external calls of \<open>buscar_portal_mapa\<close> do in one execution: building the
  provider and the extractor (lines 42-43), entering \<open>async_playwright()\<close>, launching
  chromium, the extraction call (a function of the arguments it is given) and
  \<open>browser.close()\<close>. \<open>None\<close> is a normal return, \<open>Some e\<close> raises \<open>e\<close>.
  Line 76 reads \<open>result.output_parsed.informacao_relevante\<close> after the browser is
  closed; on a result without parsed output the attribute access raises
  \<open>AttributeError\<close>.
\<close>

record world =
  make_extractor :: "error option"
  playwright_enter :: "error option"
  chromium_launch :: "error option"
  extract_async :: "string list \<Rightarrow> ExtractionPreferences \<Rightarrow> string \<Rightarrow> extract_result"
  browser_close :: "error option"

text \<open>
  The effects of an execution on the outside, in order. \<open>ExtractCalled\<close> records the
  call with its arguments; the others record a call that completed. Leaving the
  \<open>async with\<close> block, normally or by an exception, runs the context manager's exit,
  which stops the Playwright driver; exceptions pass through it.
\<close>

datatype effect =
    PlaywrightStarted
  | BrowserLaunched bool
  | ExtractCalled "string list" ExtractionPreferences string
  | BrowserClosed
  | PlaywrightStopped

definition urls :: "string list" where
  "urls = [''https://www.gov.br/agricultura/pt-br/assuntos/insumos-agropecuarios/insumos-agricolas/fertilizantes/legislacao'']"

definition preferences :: ExtractionPreferences where
  "preferences =
     \<lparr>only_main_content = True, wait_for_ms = 2000, block_ads = True,
      remove_base_64_images = True, timeout_ms = 15000\<rparr>"

definition prompt :: "string \<Rightarrow> string" where
  "prompt termo =
     ''Extrair informa'' @ [CHR 0xE7, CHR 0xF5] @ ''es sobre: '' @ termo
       @ ''. Focar em requisitos, prazos e custos.''"

text \<open>Lines 46-76: the body of the \<open>async with\<close> block.\<close>

definition playwright_block :: "world \<Rightarrow> string \<Rightarrow> (error + string) \<times> effect list" where
  "playwright_block w termo =
     (case chromium_launch w of
        Some e \<Rightarrow> (Inl e, [])
      | None \<Rightarrow>
          (case extract_async w urls preferences (prompt termo) of
             ExtractRaises e \<Rightarrow>
               (Inl e, [BrowserLaunched True, ExtractCalled urls preferences (prompt termo)])
           | Extracted result \<Rightarrow>
               (case browser_close w of
                  Some e \<Rightarrow>
                    (Inl e, [BrowserLaunched True, ExtractCalled urls preferences (prompt termo)])
                | None \<Rightarrow>
                    (case result of
                       None \<Rightarrow>
                         (Inl (Raised ''AttributeError''),
                          [BrowserLaunched True,
                           ExtractCalled urls preferences (prompt termo), BrowserClosed])
                     | Some parsed \<Rightarrow>
                         (Inr (informacao_relevante parsed),
                          [BrowserLaunched True,
                           ExtractCalled urls preferences (prompt termo), BrowserClosed])))))"

definition buscar_portal_mapa :: "world \<Rightarrow> string \<Rightarrow> (error + string) \<times> effect list" where
  "buscar_portal_mapa w termo =
     (case make_extractor w of
        Some e \<Rightarrow> (Inl e, [])
      | None \<Rightarrow>
          (case playwright_enter w of
             Some e \<Rightarrow> (Inl e, [])
           | None \<Rightarrow>
               (case playwright_block w termo of
                  (r, es) \<Rightarrow> (r, PlaywrightStarted # es @ [PlaywrightStopped]))))"

text \<open>
  Whether a browser launched by the execution is still running after the effects, starting
  from \<open>b\<close>. A browser goes away when \<open>browser.close()\<close> completes, and when the
  Playwright driver that launched it is stopped: the driver owns the browser processes
  (the repository's own \<open>example_extractor_usage\<close> never calls \<open>close\<close> and relies on
  the block's exit alone).
\<close>

fun browser_running :: "bool \<Rightarrow> effect list \<Rightarrow> bool" where
  "browser_running b [] = b"
| "browser_running b (BrowserLaunched hl # es) = browser_running True es"
| "browser_running b (BrowserClosed # es) = browser_running False es"
| "browser_running b (PlaywrightStopped # es) = browser_running False es"
| "browser_running b (PlaywrightStarted # es) = browser_running b es"
| "browser_running b (ExtractCalled u p q # es) = browser_running b es"

section \<open>api.py\<close>

subsection \<open>Authentication\<close>

record user =
  user_id :: string
  role :: string

record request =
  headers :: "(string \<times> string) list"

text \<open>
  \<open>verify_token\<close> declares \<open>token: str = Depends(lambda: "mock_token")\<close>: the framework
  fills \<open>token\<close> with the result of calling the lambda, which takes nothing from the
  request. Every endpoint declares \<open>current_user = Depends(verify_token)\<close>;
  \<open>current_user\<close> is that resolution for a request.
\<close>

definition token_dependency :: string where
  "token_dependency = ''mock_token''"

definition verify_token :: "string \<Rightarrow> error + user" where
  "verify_token token =
     (if token = [] then Inl (HTTPException 401 (''Token n'' @ [CHR 0xE3] @ ''o fornecido''))
      else Inr \<lparr>user_id = ''user-1'', role = ''colaborador''\<rparr>)"

definition current_user :: "request \<Rightarrow> error + user" where
  "current_user req = verify_token token_dependency"

subsection \<open>Status endpoint\<close>

datatype run_state = completed | processing | pending | failed

text \<open>
  The response dicts are records; a key that two dicts share is renamed in one of them:
  \<open>state\<close> is the key \<open>status\<close> of an agent's progress entry.
\<close>

record AgentProgress =
  state :: run_state
  progress_percent :: int
  estimated_time_remaining_seconds :: int

record ProjectStatus =
  project_id :: string
  status :: run_state
  progress :: "(string \<times> AgentProgress) list"
  overall_progress_percent :: int

definition get_project_status :: "string \<Rightarrow> user \<Rightarrow> ProjectStatus" where
  "get_project_status pid cur_user =
     \<lparr>project_id = pid,
      status = processing,
      progress =
        [(''ale'', \<lparr>state = completed, progress_percent = 100,
                    estimated_time_remaining_seconds = 0\<rparr>),
         (''merc'', \<lparr>state = processing, progress_percent = 75,
                     estimated_time_remaining_seconds = 15\<rparr>),
         (''pat'', \<lparr>state = processing, progress_percent = 50,
                    estimated_time_remaining_seconds = 30\<rparr>),
         (''dex'', \<lparr>state = pending, progress_percent = 0,
                    estimated_time_remaining_seconds = 60\<rparr>)],
      overall_progress_percent = 56\<rparr>"

definition status_endpoint :: "request \<Rightarrow> string \<Rightarrow> error + ProjectStatus" where
  "status_endpoint req pid =
     (case current_user req of
        Inl e \<Rightarrow> Inl e
      | Inr u \<Rightarrow> Inr (get_project_status pid u))"

subsection \<open>Analysis endpoint\<close>

datatype light = verde | amarelo | vermelho

datatype recommendation_tier = VIAVEL | VIAVEL_COM_AJUSTES | NAO_VIAVEL

text \<open>
  \<open>MOCK_ANALYSIS_DATA\<close>, without the free-form \<open>details\<close> and \<open>financial_projection\<close>
  dicts and the import-time \<open>analyzed_at\<close>. \<open>agent_light\<close> is the key \<open>status\<close> of an
  agent entry and \<open>analysis_project_id\<close> the key \<open>project_id\<close>.
\<close>

record AgentAnalysisDetails =
  agent_name :: string
  agent_role :: string
  agent_light :: light
  score :: int
  summary :: string

record ProjectAnalysis =
  analysis_project_id :: string
  project_name :: string
  overall_score :: int
  recommendation :: recommendation_tier
  recommendation_text :: string
  agents :: "(string \<times> AgentAnalysisDetails) list"
  action_items :: "string list"
  alerts :: "string list"

definition MOCK_ANALYSIS_DATA :: ProjectAnalysis where
  "MOCK_ANALYSIS_DATA =
     \<lparr>analysis_project_id = ''proj-abc123'',
      project_name = ''Bioestimulante Algas Soja'',
      overall_score = 82,
      recommendation = VIAVEL_COM_AJUSTES,
      recommendation_text =
        ''Projeto vi'' @ [CHR 0xE1] @ ''vel com ajustes menores na formula''
          @ [CHR 0xE7, CHR 0xE3] @ ''o para evitar conflito de patente'',
      agents =
        [(''ale'',
          \<lparr>agent_name = ''Al'' @ [CHR 0xEA], agent_role = ''Regulat'' @ [CHR 0xF3] @ ''ria'',
           agent_light = verde, score = 90,
           summary = ''Via livre regulat'' @ [CHR 0xF3]
             @ ''ria. Registro estimado em 18-24 meses via MAPA.''\<rparr>),
         (''merc'',
          \<lparr>agent_name = ''Merc'', agent_role = ''Mercado'',
           agent_light = verde, score = 85,
           summary = ''Mercado de R$ 850M/ano crescendo +15% a.a.''\<rparr>),
         (''pat'',
          \<lparr>agent_name = ''Pat'', agent_role = ''Patentes'',
           agent_light = amarelo, score = 75,
           summary = ''Identificadas 2 patentes com potencial conflito.''\<rparr>),
         (''dex'',
          \<lparr>agent_name = ''Dex'', agent_role = ''Dados e Ci'' @ [CHR 0xEA] @ ''ncia'',
           agent_light = verde, score = 88,
           summary = ''73 artigos comprovam efic'' @ [CHR 0xE1]
             @ ''cia. Dados internos validam.''\<rparr>)],
      action_items =
        [''Contatar Embrapa Soja para parceria'',
         ''Iniciar testes de formula'' @ [CHR 0xE7, CHR 0xE3] @ ''o alternativa''],
      alerts = []\<rparr>"

text \<open>
  \<open>MOCK_ANALYSIS_DATA.copy()\<close> is a new dict, so the assignment of \<open>project_id\<close> leaves
  the module's dict as it is.
\<close>

definition get_project_analysis :: "string \<Rightarrow> user \<Rightarrow> ProjectAnalysis" where
  "get_project_analysis pid cur_user = MOCK_ANALYSIS_DATA\<lparr>analysis_project_id := pid\<rparr>"

text \<open>
  The aggregation rule in the specification's words: the overall score is the mean of
  the agents' scores with equal weights. The score is an integer; the mean is rounded
  down here and up in \<open>spec_mean_up\<close>.
\<close>

definition spec_equal_weighted_mean :: "int list \<Rightarrow> int" where
  "spec_equal_weighted_mean xs = sum_list xs div int (length xs)"

definition spec_mean_up :: "int list \<Rightarrow> int" where
  "spec_mean_up xs = - ((- sum_list xs) div int (length xs))"

subsection \<open>Chat endpoint\<close>

datatype agent_id = ale | merc | pat | dex

definition agent_names :: "agent_id \<Rightarrow> string" where
  "agent_names a =
     (case a of ale \<Rightarrow> ''Al'' @ [CHR 0xEA] | merc \<Rightarrow> ''Merc'' | pat \<Rightarrow> ''Pat'' | dex \<Rightarrow> ''Dex'')"

text \<open>
  The response dict of \<open>chat_with_agent\<close>; \<open>reply_text\<close> is \<open>response["text"]\<close> (the
  \<open>structured_data\<close> beside it is always empty). The two \<open>uuid4().hex\<close> strings and the
  clock reading are inputs.
\<close>

record ChatReply =
  chat_id :: string
  reply_agent_id :: agent_id
  reply_agent_name :: string
  message_id :: string
  reply_text :: string
  timestamp :: nat

definition chat_with_agent ::
  "string \<Rightarrow> string \<Rightarrow> nat \<Rightarrow> string \<Rightarrow> agent_id \<Rightarrow> string \<Rightarrow> user \<Rightarrow> ChatReply" where
  "chat_with_agent hex1 hex2 now pid aid message cur_user =
     \<lparr>chat_id = ''chat-'' @ take 8 hex1,
      reply_agent_id = aid,
      reply_agent_name = agent_names aid,
      message_id = ''msg-'' @ take 6 hex2,
      reply_text = ''[Mock] Resposta do agente '' @ agent_names aid @ '' para: '' @ message,
      timestamp = now\<rparr>"

section \<open>Concrete inputs\<close>

definition soja_context :: dict where
  "soja_context =
     [''name'' \<mapsto> ''Bioestimulante Algas Soja'',
      ''category'' \<mapsto> ''bioestimulantes'',
      ''target_crop'' \<mapsto> ''soja'']"

definition soja_context_message :: string where
  "soja_context_message =
     nl @ ''    [CONTEXTO DO PROJETO]'' @ nl
       @ ''    Nome: Bioestimulante Algas Soja'' @ nl
       @ ''    Categoria: bioestimulantes'' @ nl
       @ ''    Cultura: soja'' @ nl
       @ ''    Status Regulat'' @ [CHR 0xF3] @ ''rio Atual: Em an'' @ [CHR 0xE1] @ ''lise'' @ nl
       @ ''    ''"

text \<open>A store whose only list is the history of a session after one exchange.\<close>

definition first_exchange :: "message list" where
  "first_exchange =
     [UserMessage [TextPart ''Qual o prazo de registro?''],
      AssistantMessage [TextPart ''Estimativa: 18-24 meses.'']]"

definition silent_agent :: "message list \<Rightarrow> run_result" where
  "silent_agent msgs = Returns None"

definition world_ok :: world where
  "world_ok =
     \<lparr>make_extractor = None, playwright_enter = None, chromium_launch = None,
      extract_async = (\<lambda>u p q. Extracted (Some
        \<lparr>informacao_relevante = ''IN 61/2020'', numero_normativa = None,
         data_publicacao = None\<rparr>)),
      browser_close = None\<rparr>"

definition world_timeout :: world where
  "world_timeout = world_ok\<lparr>extract_async := (\<lambda>u p q. ExtractRaises (Raised ''TimeoutError''))\<rparr>"

definition world_unparsed :: world where
  "world_unparsed = world_ok\<lparr>extract_async := (\<lambda>u p q. Extracted None)\<rparr>"

definition any_user :: user where
  "any_user = \<lparr>user_id = ''user-1'', role = ''colaborador''\<rparr>"

section \<open>Facts about the store operations\<close>

lemma build_messages_Inr:
  assumes "context_message pc = Inr ctx"
  shows "build_messages um pc ch h =
           Inr (length h,
                list_append (length h) (UserMessage [TextPart um])
                  (list_extend (length h) ch (h @ [[UserMessage [TextPart ctx]]])))"
  using assms by (simp add: build_messages_def new_list_def)

lemma build_messages_Inl:
  assumes "context_message pc = Inl e"
  shows "build_messages um pc ch h = Inl e"
  using assms by (simp add: build_messages_def)

lemma built_store_new:
  assumes "ch < length h"
  shows "list_append (length h) u (list_extend (length h) ch (h @ [[c]])) ! length h
           = c # h ! ch @ [u]"
  using assms by (simp add: list_append_def list_extend_def nth_append)

lemma built_store_old:
  shows "take (length h) (list_append (length h) u (list_extend (length h) ch (h @ [[c]]))) = h"
  by (simp add: list_append_def list_extend_def)

lemma messages_sent_eq:
  assumes "context_message pc = Inr ctx" and "ch < length h"
  shows "messages_sent um pc ch h
           = Some (UserMessage [TextPart ctx] # h ! ch @ [UserMessage [TextPart um]])"
  using assms by (simp add: messages_sent_def build_messages_Inr built_store_new)

text \<open>
  The context turn is built exactly when \<open>project_context\<close> has the three keys the
  f-string subscripts; the first missing one, in the order of the subscripts, is the
  \<open>KeyError\<close>.
\<close>

lemma context_message_keys:
  "(\<exists>ctx. context_message pc = Inr ctx)
     \<longleftrightarrow> pc ''name'' \<noteq> None \<and> pc ''category'' \<noteq> None \<and> pc ''target_crop'' \<noteq> None"
  by (auto simp: context_message_def getitem_def split: option.splits)

lemma context_message_of_keys:
  assumes "pc ''name'' = Some name" and "pc ''category'' = Some category"
    and "pc ''target_crop'' = Some target_crop"
  shows "context_message pc =
           Inr (nl @ ''    [CONTEXTO DO PROJETO]'' @ nl
              @ ''    Nome: '' @ name @ nl
              @ ''    Categoria: '' @ category @ nl
              @ ''    Cultura: '' @ target_crop @ nl
              @ ''    Status Regulat'' @ [CHR 0xF3] @ ''rio Atual: ''
              @ dict_get pc ''status_regulatorio'' (''Em an'' @ [CHR 0xE1] @ ''lise'') @ nl
              @ ''    '')"
  using assms by (simp add: context_message_def getitem_def)

lemma context_message_missing_key:
  shows "pc ''name'' = None \<Longrightarrow> context_message pc = Inl (KeyError ''name'')"
    and "pc ''name'' = Some n \<Longrightarrow> pc ''category'' = None
           \<Longrightarrow> context_message pc = Inl (KeyError ''category'')"
    and "pc ''name'' = Some n \<Longrightarrow> pc ''category'' = Some c \<Longrightarrow> pc ''target_crop'' = None
           \<Longrightarrow> context_message pc = Inl (KeyError ''target_crop'')"
  by (simp_all add: context_message_def getitem_def)

lemma soja_context_message_eq: "context_message soja_context = Inr soja_context_message"
  by (simp add: context_message_def soja_context_def soja_context_message_def
      getitem_def dict_get_def)

section \<open>Facts about the web-extraction tool\<close>

lemma extract_fails_effects:
  assumes "make_extractor w = None" and "playwright_enter w = None"
    and "chromium_launch w = None"
    and "extract_async w urls preferences (prompt termo) = ExtractRaises e"
  shows "buscar_portal_mapa w termo =
           (Inl e, [PlaywrightStarted, BrowserLaunched True,
                    ExtractCalled urls preferences (prompt termo), PlaywrightStopped])"
  using assms by (simp add: buscar_portal_mapa_def playwright_block_def)

lemma browser_close_completes_iff:
  "BrowserClosed \<in> set (snd (buscar_portal_mapa w termo))
     \<longleftrightarrow> make_extractor w = None \<and> playwright_enter w = None \<and> chromium_launch w = None
         \<and> (\<exists>r. extract_async w urls preferences (prompt termo) = Extracted r)
         \<and> browser_close w = None"
  by (auto simp: buscar_portal_mapa_def playwright_block_def
      split: option.splits extract_result.splits)

lemma unparsed_result_raises:
  assumes "make_extractor w = None" and "playwright_enter w = None"
    and "chromium_launch w = None"
    and "extract_async w urls preferences (prompt termo) = Extracted None"
    and "browser_close w = None"
  shows "buscar_portal_mapa w termo =
           (Inl (Raised ''AttributeError''),
            [PlaywrightStarted, BrowserLaunched True,
             ExtractCalled urls preferences (prompt termo), BrowserClosed,
             PlaywrightStopped])"
  using assms by (simp add: buscar_portal_mapa_def playwright_block_def)

lemma unparsed_result_example:
  "buscar_portal_mapa world_unparsed ''adjuvantes'' =
     (Inl (Raised ''AttributeError''),
      [PlaywrightStarted, BrowserLaunched True,
       ExtractCalled urls preferences (prompt ''adjuvantes''), BrowserClosed,
       PlaywrightStopped])"
  by (rule unparsed_result_raises) (simp_all add: world_unparsed_def world_ok_def)

section \<open>Facts about the chat endpoint\<close>

text \<open>
  The endpoint answers from \<open>agent_id\<close> and the message alone: it calls no agent, and
  neither the project nor any earlier message has a part in the text.
\<close>

lemma chat_with_agent_is_mock:
  "reply_text (chat_with_agent hex1 hex2 now pid aid message u)
     = reply_text (chat_with_agent hex1' hex2' now' pid' aid message u')"
  by (simp add: chat_with_agent_def)

section \<open>The chat operation\<close>

text \<open>
  C1, as amended. \<open>run_ale_chat\<close> takes no project or agent identifier and keeps nothing
  between calls. On every call whose \<open>project_context\<close> has the keys \<open>name\<close>, \<open>category\<close>
  and \<open>target_crop\<close>, whatever \<open>chat_history\<close> holds, the messages sent to the agent are
  the synthesized context turn first, followed by \<open>chat_history\<close> and the new user turn.
  So a call after the first sends the context turn again: what is sent is not the history
  followed by the new user turn, and holds the context turn once more than these do.
\<close>

theorem context_injected_on_every_call:
  assumes "pc ''name'' = Some name" and "pc ''category'' = Some category"
    and "pc ''target_crop'' = Some target_crop" and "ch < length h"
  shows "\<exists>ctx msgs.
           context_message pc = Inr ctx
           \<and> ctx = nl @ ''    [CONTEXTO DO PROJETO]'' @ nl
                  @ ''    Nome: '' @ name @ nl
                  @ ''    Categoria: '' @ category @ nl
                  @ ''    Cultura: '' @ target_crop @ nl
                  @ ''    Status Regulat'' @ [CHR 0xF3] @ ''rio Atual: ''
                  @ dict_get pc ''status_regulatorio'' (''Em an'' @ [CHR 0xE1] @ ''lise'') @ nl
                  @ ''    ''
           \<and> messages_sent um pc ch h = Some msgs
           \<and> msgs = UserMessage [TextPart ctx] # h ! ch @ [UserMessage [TextPart um]]
           \<and> hd msgs = UserMessage [TextPart ctx]
           \<and> msgs \<noteq> h ! ch @ [UserMessage [TextPart um]]
           \<and> count_list msgs (UserMessage [TextPart ctx])
               = Suc (count_list (h ! ch @ [UserMessage [TextPart um]])
                       (UserMessage [TextPart ctx]))"
proof -
  let ?ctx = "nl @ ''    [CONTEXTO DO PROJETO]'' @ nl
                  @ ''    Nome: '' @ name @ nl
                  @ ''    Categoria: '' @ category @ nl
                  @ ''    Cultura: '' @ target_crop @ nl
                  @ ''    Status Regulat'' @ [CHR 0xF3] @ ''rio Atual: ''
                  @ dict_get pc ''status_regulatorio'' (''Em an'' @ [CHR 0xE1] @ ''lise'') @ nl
                  @ ''    ''"
  have ctx: "context_message pc = Inr ?ctx"
    using assms(1-3) by (rule context_message_of_keys)
  have sent: "messages_sent um pc ch h
      = Some (UserMessage [TextPart ?ctx] # h ! ch @ [UserMessage [TextPart um]])"
    using ctx assms(4) by (rule messages_sent_eq)
  show ?thesis
    using ctx sent by simp
qed

theorem context_injected_on_every_call_witness:
  "soja_context ''name'' = Some ''Bioestimulante Algas Soja''
   \<and> soja_context ''category'' = Some ''bioestimulantes''
   \<and> soja_context ''target_crop'' = Some ''soja''
   \<and> (0::nat) < length [first_exchange]
   \<and> (\<exists>msgs. messages_sent ''E o custo?'' soja_context 0 [first_exchange] = Some msgs
          \<and> msgs = UserMessage [TextPart soja_context_message]
                     # first_exchange @ [UserMessage [TextPart ''E o custo?'']]
          \<and> hd msgs = UserMessage [TextPart soja_context_message]
          \<and> msgs \<noteq> first_exchange @ [UserMessage [TextPart ''E o custo?'']])"
proof -
  have k1: "soja_context ''name'' = Some ''Bioestimulante Algas Soja''"
    by (simp add: soja_context_def)
  have k2: "soja_context ''category'' = Some ''bioestimulantes''"
    by (simp add: soja_context_def)
  have k3: "soja_context ''target_crop'' = Some ''soja''"
    by (simp add: soja_context_def)
  have len: "(0::nat) < length [first_exchange]" by simp
  show ?thesis
    using context_injected_on_every_call [OF k1 k2 k3 len, of "''E o custo?''"]
      soja_context_message_eq k1 k2 k3
    by auto
qed

text \<open>
  C1 as stated fails: on a call after the first, with the history of one exchange, the
  context turn is sent again in front of the history, so what is sent is not the history
  plus the new user turn.
\<close>

theorem context_once_per_session_counterexample:
  "messages_sent ''E o custo?'' soja_context 0 [first_exchange]
     = Some (UserMessage [TextPart soja_context_message]
             # first_exchange @ [UserMessage [TextPart ''E o custo?'']])
   \<and> messages_sent ''E o custo?'' soja_context 0 [first_exchange]
     \<noteq> Some (first_exchange @ [UserMessage [TextPart ''E o custo?'']])"
  by (simp add: messages_sent_eq [OF soja_context_message_eq])

text \<open>
  C8. A chat call sends the agent the context turn first, then the conversation history,
  then the new user turn, and the reply returned is the agent's answer to exactly that
  sequence. This holds for any history, the empty one of a call with no prior session
  included. (Without one of the three required keys the call raises \<open>KeyError\<close> before
  anything is sent.)
\<close>

theorem chat_message_order:
  assumes "context_message pc = Inr ctx" and "ch < length h"
  shows "messages_sent um pc ch h
           = Some (UserMessage [TextPart ctx] # h ! ch @ [UserMessage [TextPart um]])
       \<and> fst (run_ale_chat run_async um pc ch h)
           = (case run_async (UserMessage [TextPart ctx] # h ! ch @ [UserMessage [TextPart um]]) of
                Raises e \<Rightarrow> Inl e
              | Returns c \<Rightarrow> Inr (response_text c))"
  using assms
  by (simp add: messages_sent_eq run_ale_chat_def build_messages_Inr built_store_new
      split: run_result.splits)

theorem chat_message_order_witness:
  "context_message soja_context = Inr soja_context_message
   \<and> (0::nat) < length [[] :: message list]
   \<and> messages_sent ''Qual o prazo de registro?'' soja_context 0 [[]]
       = Some [UserMessage [TextPart soja_context_message],
               UserMessage [TextPart ''Qual o prazo de registro?'']]
   \<and> fst (run_ale_chat silent_agent ''Qual o prazo de registro?'' soja_context 0 [[]])
       = Inr fallback_message"
proof -
  have len: "(0::nat) < length [[] :: message list]" by simp
  show ?thesis
    using chat_message_order [OF soja_context_message_eq len,
        of "''Qual o prazo de registro?''" silent_agent]
      soja_context_message_eq
    by (simp add: silent_agent_def response_text_def)
qed

text \<open>
  C5. When the agent's call returns and its output has no content (\<open>None\<close> or an empty
  list), \<open>run_ale_chat\<close> returns the fixed fallback message, which is not the empty string,
  and raises nothing.
\<close>

theorem chat_fallback_on_no_content:
  assumes "messages_sent um pc ch h = Some msgs"
    and "run_async msgs = Returns c"
    and "c = None \<or> c = Some []"
  shows "fst (run_ale_chat run_async um pc ch h) = Inr fallback_message
       \<and> fallback_message \<noteq> []"
  using assms
  by (auto simp: messages_sent_def run_ale_chat_def response_text_def fallback_message_def
      split: sum.splits prod.splits)

theorem chat_fallback_on_no_content_witness:
  "messages_sent ''E o custo?'' soja_context 0 [first_exchange]
     = Some (UserMessage [TextPart soja_context_message]
             # first_exchange @ [UserMessage [TextPart ''E o custo?'']])
   \<and> silent_agent (UserMessage [TextPart soja_context_message]
                    # first_exchange @ [UserMessage [TextPart ''E o custo?'']]) = Returns None
   \<and> fst (run_ale_chat silent_agent ''E o custo?'' soja_context 0 [first_exchange])
       = Inr fallback_message
   \<and> fallback_message \<noteq> []"
proof -
  have sent: "messages_sent ''E o custo?'' soja_context 0 [first_exchange]
     = Some (UserMessage [TextPart soja_context_message]
             # first_exchange @ [UserMessage [TextPart ''E o custo?'']])"
    by (simp add: messages_sent_eq [OF soja_context_message_eq])
  have silent: "silent_agent (UserMessage [TextPart soja_context_message]
      # first_exchange @ [UserMessage [TextPart ''E o custo?'']]) = Returns None"
    by (simp add: silent_agent_def)
  have none: "(None :: part list option) = None \<or> (None :: part list option) = Some []"
    by simp
  from chat_fallback_on_no_content
    [of "''E o custo?''" soja_context 0 "[first_exchange]" _ silent_agent None,
      OF sent silent none] sent silent
  show ?thesis by simp
qed

text \<open>
  C10. \<open>run_ale_chat\<close> leaves the caller's \<open>chat_history\<close> list as it was: every list
  that existed before the call, the history among them, has the same elements after it,
  whether the call returns or raises. The messages are built in a list of their own, a
  different object from the history.
\<close>

theorem chat_history_unchanged:
  assumes "ch < length h"
  shows "snd (run_ale_chat run_async um pc ch h) ! ch = h ! ch
       \<and> take (length h) (snd (run_ale_chat run_async um pc ch h)) = h
       \<and> (\<forall>messages h'. build_messages um pc ch h = Inr (messages, h') \<longrightarrow> messages \<noteq> ch)"
proof (cases "context_message pc")
  case (Inl e)
  then show ?thesis
    by (simp add: run_ale_chat_def build_messages_Inl)
next
  case (Inr ctx)
  have old: "take (length h) (snd (run_ale_chat run_async um pc ch h)) = h"
    using Inr
    by (simp add: run_ale_chat_def build_messages_Inr built_store_old
        split: run_result.splits)
  have "snd (run_ale_chat run_async um pc ch h) ! ch
          = take (length h) (snd (run_ale_chat run_async um pc ch h)) ! ch"
    using assms by simp
  with old have frame: "snd (run_ale_chat run_async um pc ch h) ! ch = h ! ch"
    by simp
  have fresh: "\<forall>messages h'. build_messages um pc ch h = Inr (messages, h') \<longrightarrow> messages \<noteq> ch"
    using Inr assms by (simp add: build_messages_Inr)
  from frame old fresh show ?thesis by simp
qed

theorem chat_history_unchanged_witness:
  "(0::nat) < length [first_exchange]
   \<and> snd (run_ale_chat silent_agent ''E o custo?'' soja_context 0 [first_exchange]) ! 0
       = first_exchange
   \<and> length (snd (run_ale_chat silent_agent ''E o custo?'' soja_context 0 [first_exchange])) = 2
   \<and> (\<exists>h'. build_messages ''E o custo?'' soja_context 0 [first_exchange] = Inr (1, h'))"
proof -
  have len: "(0::nat) < length [first_exchange]" by simp
  have two: "length (snd (run_ale_chat silent_agent ''E o custo?'' soja_context 0
      [first_exchange])) = 2"
    by (simp add: run_ale_chat_def build_messages_Inr [OF soja_context_message_eq]
        list_append_def list_extend_def silent_agent_def)
  have built: "\<exists>h'. build_messages ''E o custo?'' soja_context 0 [first_exchange] = Inr (1, h')"
    by (simp add: build_messages_Inr [OF soja_context_message_eq])
  from chat_history_unchanged [OF len, of silent_agent "''E o custo?''" soja_context] two built
  show ?thesis by simp
qed

section \<open>The web-extraction tool\<close>

text \<open>
  C3, as amended. \<open>buscar_portal_mapa\<close> handles no exception and produces no error
  value of its own: an exception \<open>e\<close> raised by building the extractor, entering
  Playwright, launching the browser, the extraction call or \<open>browser.close()\<close> (the calls
  before it having returned) reaches the tool's caller as that same \<open>e\<close>.
\<close>

theorem tool_exception_propagates:
  assumes "make_extractor w = Some e
   \<or> make_extractor w = None \<and> playwright_enter w = Some e
   \<or> make_extractor w = None \<and> playwright_enter w = None \<and> chromium_launch w = Some e
   \<or> make_extractor w = None \<and> playwright_enter w = None \<and> chromium_launch w = None
       \<and> extract_async w urls preferences (prompt termo) = ExtractRaises e
   \<or> make_extractor w = None \<and> playwright_enter w = None \<and> chromium_launch w = None
       \<and> (\<exists>r. extract_async w urls preferences (prompt termo) = Extracted r)
       \<and> browser_close w = Some e"
  shows "fst (buscar_portal_mapa w termo) = Inl e"
  using assms
  by (auto simp: buscar_portal_mapa_def playwright_block_def
      split: option.splits extract_result.splits)

theorem tool_exception_propagates_witness:
  "make_extractor world_timeout = None \<and> playwright_enter world_timeout = None
   \<and> chromium_launch world_timeout = None
   \<and> extract_async world_timeout urls preferences (prompt ''bioestimulantes registro'')
       = ExtractRaises (Raised ''TimeoutError'')
   \<and> fst (buscar_portal_mapa world_timeout ''bioestimulantes registro'')
       = Inl (Raised ''TimeoutError'')"
proof -
  have pre: "make_extractor world_timeout = None \<and> playwright_enter world_timeout = None
      \<and> chromium_launch world_timeout = None
      \<and> extract_async world_timeout urls preferences (prompt ''bioestimulantes registro'')
          = ExtractRaises (Raised ''TimeoutError'')"
    by (simp add: world_timeout_def world_ok_def)
  then have cases: "make_extractor world_timeout = Some (Raised ''TimeoutError'')
      \<or> make_extractor world_timeout = None
          \<and> playwright_enter world_timeout = Some (Raised ''TimeoutError'')
      \<or> make_extractor world_timeout = None \<and> playwright_enter world_timeout = None
          \<and> chromium_launch world_timeout = Some (Raised ''TimeoutError'')
      \<or> make_extractor world_timeout = None \<and> playwright_enter world_timeout = None
          \<and> chromium_launch world_timeout = None
          \<and> extract_async world_timeout urls preferences (prompt ''bioestimulantes registro'')
              = ExtractRaises (Raised ''TimeoutError'')
      \<or> make_extractor world_timeout = None \<and> playwright_enter world_timeout = None
          \<and> chromium_launch world_timeout = None
          \<and> (\<exists>r. extract_async world_timeout urls preferences
                (prompt ''bioestimulantes registro'') = Extracted r)
          \<and> browser_close world_timeout = Some (Raised ''TimeoutError'')"
    by simp
  from tool_exception_propagates [OF cases] pre show ?thesis by simp
qed

text \<open>
  C3 as stated fails: when the extraction call times out, the exception comes out of the
  tool unchanged, not as a result value.
\<close>

theorem tool_error_conversion_counterexample:
  "fst (buscar_portal_mapa world_timeout ''bioestimulantes registro'')
     = Inl (Raised ''TimeoutError'')"
  by (simp add: buscar_portal_mapa_def playwright_block_def world_timeout_def world_ok_def)

text \<open>
  C4. After every execution of \<open>buscar_portal_mapa\<close>, however each external call ends, no
  browser launched by it is still running. When the extraction call or \<open>browser.close()\<close>
  raises, \<open>browser.close()\<close> has not completed (\<open>browser_close_completes_iff\<close>) and the
  browser goes with the exit of the \<open>async with\<close> block.
\<close>

theorem browser_torn_down_on_every_path:
  "\<not> browser_running False (snd (buscar_portal_mapa w termo))"
  by (simp add: buscar_portal_mapa_def playwright_block_def
      split: option.splits extract_result.splits)

theorem browser_torn_down_on_every_path_witness:
  "\<not> browser_running False (snd (buscar_portal_mapa world_timeout ''bioestimulantes registro''))
   \<and> BrowserLaunched True \<in> set (snd (buscar_portal_mapa world_timeout ''bioestimulantes registro''))
   \<and> fst (buscar_portal_mapa world_timeout ''bioestimulantes registro'')
       = Inl (Raised ''TimeoutError'')"
  using browser_torn_down_on_every_path [of world_timeout "''bioestimulantes registro''"]
  by (simp add: buscar_portal_mapa_def playwright_block_def world_timeout_def world_ok_def)

text \<open>
  C6. Every extraction call made by \<open>buscar_portal_mapa\<close> carries preferences whose
  timeout is 15000 ms, within 15 to 20 seconds.
\<close>

theorem extraction_timeout_bounded:
  assumes "ExtractCalled u p q \<in> set (snd (buscar_portal_mapa w termo))"
  shows "timeout_ms p = 15000 \<and> 15 * 1000 \<le> timeout_ms p \<and> timeout_ms p \<le> 20 * 1000"
  using assms
  by (auto simp: buscar_portal_mapa_def playwright_block_def preferences_def
      split: option.splits extract_result.splits)

theorem extraction_timeout_bounded_witness:
  "ExtractCalled urls preferences (prompt ''adjuvantes'')
     \<in> set (snd (buscar_portal_mapa world_ok ''adjuvantes''))
   \<and> 15 * 1000 \<le> timeout_ms preferences \<and> timeout_ms preferences \<le> 20 * 1000"
proof -
  have called: "ExtractCalled urls preferences (prompt ''adjuvantes'')
      \<in> set (snd (buscar_portal_mapa world_ok ''adjuvantes''))"
    by (simp add: buscar_portal_mapa_def playwright_block_def world_ok_def)
  from extraction_timeout_bounded [OF called] called show ?thesis by simp
qed

section \<open>The API endpoints\<close>

text \<open>
  C9. For every request, resolving \<open>verify_token\<close> yields the fixed user
  \<open>{user_id: "user-1", role: "colaborador"}\<close>: the token it is given is always
  \<open>"mock_token"\<close>, and \<open>verify_token\<close> raises (its 401) for the empty token only.
\<close>

theorem verify_token_never_raises:
  "current_user req = Inr \<lparr>user_id = ''user-1'', role = ''colaborador''\<rparr>
   \<and> token_dependency = ''mock_token''
   \<and> ((\<exists>e. verify_token t = Inl e) \<longleftrightarrow> t = [])"
  by (simp add: current_user_def verify_token_def token_dependency_def)

text \<open>
  C7. Two calls of \<open>get_project_status\<close> for the same \<open>project_id\<close> return the same
  snapshot, whoever calls and whatever the requests carry: the response is the fixed
  per-agent states, percentages and remaining times, with the \<open>project_id\<close> given.
\<close>

theorem get_project_status_idempotent:
  "get_project_status pid u1 = get_project_status pid u2
   \<and> status_endpoint r1 pid = status_endpoint r2 pid
   \<and> status_endpoint r1 pid = Inr (get_project_status pid u1)
   \<and> map fst (progress (get_project_status pid u1)) = [''ale'', ''merc'', ''pat'', ''dex'']
   \<and> map (state \<circ> snd) (progress (get_project_status pid u1))
       = [completed, processing, processing, pending]
   \<and> map (progress_percent \<circ> snd) (progress (get_project_status pid u1)) = [100, 75, 50, 0]
   \<and> map (estimated_time_remaining_seconds \<circ> snd) (progress (get_project_status pid u1))
       = [0, 15, 30, 60]"
  by (simp add: get_project_status_def status_endpoint_def current_user_def
      verify_token_def token_dependency_def)

text \<open>
  C2, as amended. For the four agent results with scores 90, 85, 75, 88 and statuses
  verde, verde, amarelo, verde, the analysis that \<open>get_project_analysis\<close> returns carries
  the stored overall score 82 and the stored recommendation \<open>VIAVEL_COM_AJUSTES\<close>, for
  every project and caller; nothing is computed from the agents' scores.
\<close>

theorem analysis_score_is_stored:
  "map (score \<circ> snd) (agents (get_project_analysis pid u)) = [90, 85, 75, 88]
   \<and> map (agent_light \<circ> snd) (agents (get_project_analysis pid u))
       = [verde, verde, amarelo, verde]
   \<and> overall_score (get_project_analysis pid u) = 82
   \<and> recommendation (get_project_analysis pid u) = VIAVEL_COM_AJUSTES"
  by (simp add: get_project_analysis_def MOCK_ANALYSIS_DATA_def)

text \<open>
  C2 as stated fails: the overall score returned with these four agent results is 82,
  while their equal-weighted mean is 84.5 (84 rounded down, 85 rounded up).
\<close>

theorem overall_score_mean_counterexample:
  "map (score \<circ> snd) (agents (get_project_analysis ''proj-abc123'' any_user)) = [90, 85, 75, 88]
   \<and> map (agent_light \<circ> snd) (agents (get_project_analysis ''proj-abc123'' any_user))
       = [verde, verde, amarelo, verde]
   \<and> spec_equal_weighted_mean [90, 85, 75, 88] = 84
   \<and> spec_mean_up [90, 85, 75, 88] = 85
   \<and> overall_score (get_project_analysis ''proj-abc123'' any_user) = 82
   \<and> overall_score (get_project_analysis ''proj-abc123'' any_user)
       \<noteq> spec_equal_weighted_mean
           (map (score \<circ> snd) (agents (get_project_analysis ''proj-abc123'' any_user)))"
  by (simp add: get_project_analysis_def MOCK_ANALYSIS_DATA_def
      spec_equal_weighted_mean_def spec_mean_up_def)

end
